theory Spec2Isabelle
  imports Complex_Main
begin

section \<open>LastDrop backend: retailer authentication and order ownership\<close>

text \<open>
  A shallow embedding of \<^verbatim>\<open>main.py\<close> and \<^verbatim>\<open>schemas.py\<close>. Conventions:
  \<^item> a Python \<^verbatim>\<open>str\<close> that the program only stores, compares or cuts (emails, tokens,
    identifiers, header values, which are Latin-1 text) is a \<open>string\<close>; a password, which
    the program encodes, is the list of its code points (\<open>pystr\<close>), lone surrogates
    included, and \<^verbatim>\<open>.encode()\<close> raises on it as Python does;
  \<^item> a Unix time is a \<open>double\<close>, a finite IEEE 754 binary64 number given by mantissa and
    exponent, compared exactly and added with rounding to nearest, ties to even; amounts
    and prices, which the program only stores and copies, are \<open>real\<close>;
  \<^item> every \<^verbatim>\<open>raise\<close> is a value \<open>Inl e\<close> of the sum type \<open>exn + 'a\<close>;
  \<^item> the module-level handle \<^verbatim>\<open>db\<close> is a \<open>database option\<close> (\<open>None\<close> for Python's
    \<^verbatim>\<open>None\<close>), threaded through every endpoint and returned updated;
  \<^item> the values the environment supplies to a request (\<^verbatim>\<open>time.time()\<close>,
    \<^verbatim>\<open>secrets.token_urlsafe(32)\<close>, the identifier the store generates for an inserted
    document) are the fields of an \<open>env\<close> record;
  \<^item> \<^verbatim>\<open>hashlib.sha256(...).hexdigest()\<close> is a parameter \<open>sha\<close> of the functions that hash.
\<close>

subsection \<open>Exceptions\<close>

datatype exn =
    HTTPException nat string   \<comment> \<open>status code, detail\<close>
  | InvalidId                  \<comment> \<open>\<^verbatim>\<open>bson.errors.InvalidId\<close>, raised by \<^verbatim>\<open>ObjectId(s)\<close>\<close>
  | IndexError                 \<comment> \<open>list index out of range\<close>
  | StorageFailure             \<comment> \<open>\<^verbatim>\<open>create_document\<close> could not persist\<close>
  | UnicodeEncodeError         \<comment> \<open>\<^verbatim>\<open>str.encode()\<close> on a lone surrogate\<close>
  | NotImplementedError        \<comment> \<open>\<^verbatim>\<open>bool()\<close> of a pymongo \<^verbatim>\<open>Database\<close>\<close>

fun status_code :: "exn \<Rightarrow> nat" where
  "status_code (HTTPException c d) = c"
| "status_code _ = 500"  \<comment> \<open>an unhandled exception is answered with 500\<close>

subsection \<open>Strings\<close>

definition lower_char :: "char \<Rightarrow> char" where
  \<comment> \<open>\<^verbatim>\<open>str.lower\<close> on one Latin-1 character\<close>
  "lower_char c =
     (let n = (of_char c :: nat)
      in if (65 \<le> n \<and> n \<le> 90) \<or> (192 \<le> n \<and> n \<le> 222 \<and> n \<noteq> 215)
         then char_of (n + 32) else c)"

definition lower :: "string \<Rightarrow> string" where
  "lower s = map lower_char s"

definition startswith :: "string \<Rightarrow> string \<Rightarrow> bool" where
  "startswith s p = (take (length p) s = p)"

definition split1 :: "string \<Rightarrow> string list" where
  \<comment> \<open>\<^verbatim>\<open>s.split(" ", 1)\<close>: cut at the first space, if there is one\<close>
  "split1 s =
     (if CHR '' '' \<in> set s
      then [takeWhile (\<lambda>c. c \<noteq> CHR '' '') s, tl (dropWhile (\<lambda>c. c \<noteq> CHR '' '') s)]
      else [s])"

text \<open>
  A \<^verbatim>\<open>str\<close> as the list of its code points. \<^verbatim>\<open>s.encode()\<close> is UTF-8 and raises
  \<^verbatim>\<open>UnicodeEncodeError\<close> when \<open>s\<close> has a surrogate code point (\<^verbatim>\<open>U+D800\<close> to \<^verbatim>\<open>U+DFFF\<close>): in a
  \<^verbatim>\<open>str\<close> a surrogate is on its own. The code points of a \<^verbatim>\<open>str\<close> are at most \<^verbatim>\<open>U+10FFFF\<close>.
\<close>

type_synonym pystr = "nat list"

definition ascii :: "string \<Rightarrow> pystr" where
  \<comment> \<open>the \<^verbatim>\<open>str\<close> of a Latin-1 text\<close>
  "ascii s = map of_char s"

definition is_surrogate :: "nat \<Rightarrow> bool" where
  "is_surrogate c = (0xD800 \<le> c \<and> c \<le> 0xDFFF)"

definition utf8_char :: "nat \<Rightarrow> string" where
  "utf8_char c =
     (if c < 0x80 then [char_of c]
      else if c < 0x800 then [char_of (0xC0 + c div 64), char_of (0x80 + c mod 64)]
      else if c < 0x10000
        then [char_of (0xE0 + c div 4096), char_of (0x80 + c div 64 mod 64),
              char_of (0x80 + c mod 64)]
      else [char_of (0xF0 + c div 262144), char_of (0x80 + c div 4096 mod 64),
            char_of (0x80 + c div 64 mod 64), char_of (0x80 + c mod 64)])"

definition encode :: "pystr \<Rightarrow> exn + string" where
  "encode s =
     (if list_ex is_surrogate s then Inl UnicodeEncodeError
      else Inr (concat (map utf8_char s)))"

definition encodable :: "pystr \<Rightarrow> bool" where
  "encodable s = (\<not> list_ex is_surrogate s)"

subsection \<open>Floating-point numbers\<close>

text \<open>
  \<open>Double m e\<close> is the finite binary64 number \<open>m * 2 ^ e\<close>; a double has a mantissa below
  \<open>2 ^ 53\<close> in absolute value and an exponent from \<open>-1074\<close> to \<open>971\<close>. Comparison is exact.
  \<open>fadd\<close> is IEEE 754 addition: the exact sum, and when that has more than 53 significant
  bits, the nearest number with 53, the one with the even mantissa on a tie. (The program
  adds once, the constant 604800 to the clock; such a sum stays finite.)
\<close>

datatype double = Double int int

fun expo :: "double \<Rightarrow> int" where
  "expo (Double m e) = e"

fun aligned :: "double \<Rightarrow> int \<Rightarrow> int" where
  \<comment> \<open>the mantissa of the same number at a smaller exponent \<open>e0\<close>\<close>
  "aligned (Double m e) e0 = m * 2 ^ nat (e - e0)"

fun dval :: "double \<Rightarrow> real" where
  \<comment> \<open>the real number a double stands for\<close>
  "dval (Double m e) = of_int m * 2 powr of_int e"

function bitlen :: "nat \<Rightarrow> nat" where
  "bitlen n = (if n = 0 then 0 else Suc (bitlen (n div 2)))"
  by pat_completeness auto
termination
  by (relation "measure id") auto

definition round_even :: "int \<Rightarrow> nat \<Rightarrow> int" where
  \<comment> \<open>\<open>m / 2 ^ k\<close> rounded to the nearest integer, to the even one on a tie\<close>
  "round_even m k =
     (let q = m div 2 ^ k; r = m mod 2 ^ k
      in if 2 ^ k < 2 * r \<or> (2 * r = 2 ^ k \<and> odd q) then q + 1 else q)"

definition fadd :: "double \<Rightarrow> double \<Rightarrow> double" where
  "fadd x y =
     (let e = min (expo x) (expo y);
          m = aligned x e + aligned y e;
          n = bitlen (nat \<bar>m\<bar>)
      in if n \<le> 53 then Double m e
         else Double (round_even m (n - 53)) (e + int (n - 53)))"


instantiation double :: ord
begin

definition less_double :: "double \<Rightarrow> double \<Rightarrow> bool" where
  "less_double x y = (let e = min (expo x) (expo y) in aligned x e < aligned y e)"

definition less_eq_double :: "double \<Rightarrow> double \<Rightarrow> bool" where
  "less_eq_double x y = (let e = min (expo x) (expo y) in aligned x e \<le> aligned y e)"

instance ..

end

subsection \<open>Object identifiers\<close>

text \<open>
  A \<^verbatim>\<open>bson.ObjectId\<close> is represented by its \<^verbatim>\<open>str()\<close>, the hexadecimal digits of its
  bytes in lower case: 24 digits for the 12 bytes of an identifier the store generates.
  \<^verbatim>\<open>ObjectId(s)\<close> on a string of 24 characters is \<^verbatim>\<open>bytes.fromhex(s)\<close>, which reads pairs of
  hexadecimal digits of either case and skips ASCII whitespace between the pairs; on a
  string that \<^verbatim>\<open>fromhex\<close> refuses, and on one of another length, it raises \<^verbatim>\<open>InvalidId\<close>.
  (A string with a character outside ASCII is refused, whatever its length.)
\<close>

datatype objectid = Oid string

fun str_oid :: "objectid \<Rightarrow> string" where
  "str_oid (Oid h) = h"

definition is_hex :: "char \<Rightarrow> bool" where
  "is_hex c = (c \<in> set ''0123456789abcdefABCDEF'')"

definition is_lower_hex :: "char \<Rightarrow> bool" where
  "is_lower_hex c = (c \<in> set ''0123456789abcdef'')"

definition is_space :: "char \<Rightarrow> bool" where
  \<comment> \<open>space, tab, line feed, vertical tab, form feed, carriage return\<close>
  "is_space c = ((of_char c :: nat) = 32 \<or> (9 \<le> (of_char c :: nat) \<and> (of_char c :: nat) \<le> 13))"

fun fromhex :: "string \<Rightarrow> string option" where
  \<comment> \<open>the bytes read, as lower-case hexadecimal digits; \<open>None\<close> for \<^verbatim>\<open>ValueError\<close>\<close>
  "fromhex [] = Some []"
| "fromhex [c] = (if is_space c then Some [] else None)"
| "fromhex (c # d # cs) =
     (if is_space c then fromhex (d # cs)
      else if is_hex c \<and> is_hex d
        then map_option (\<lambda>h. lower_char c # lower_char d # h) (fromhex cs)
      else None)"

definition ObjectId :: "string \<Rightarrow> exn + objectid" where
  "ObjectId s =
     (if length s = 24
      then (case fromhex s of None \<Rightarrow> Inl InvalidId | Some h \<Rightarrow> Inr (Oid h))
      else Inl InvalidId)"

definition wf_oid :: "objectid \<Rightarrow> bool" where
  \<comment> \<open>the identifiers the store generates\<close>
  "wf_oid i = (length (str_oid i) = 24 \<and> list_all is_lower_hex (str_oid i))"

subsection \<open>Schemas (\<^verbatim>\<open>schemas.py\<close>) and request bodies\<close>

record Retailer =
  email :: string
  password_hash :: string
  company :: "string option"
  contact_name :: "string option"
  role :: string

record Session =
  token :: string
  session_retailer_id :: string   \<comment> \<open>field \<^verbatim>\<open>retailer_id\<close> of \<^verbatim>\<open>Session\<close>\<close>
  expires_at :: double

record OrderItem =
  sku :: string
  title :: string
  qty :: int
  price :: real

datatype order_status = Processing | Shipped | Completed | Cancelled

record OrderIn =
  order_number :: string
  status :: order_status
  total_amount :: real
  currency :: string
  items :: "OrderItem list"
  order_notes :: "string option"   \<comment> \<open>field \<^verbatim>\<open>notes\<close>\<close>

text \<open>\<^verbatim>\<open>Order\<close> has the six fields of \<^verbatim>\<open>OrderIn\<close> and \<^verbatim>\<open>retailer_id\<close>.\<close>

record Order = OrderIn +
  retailer_id :: string

text \<open>
  The JSON body of an order request: the fields of \<^verbatim>\<open>OrderIn\<close> and whatever other keys the
  client sent. \<^verbatim>\<open>OrderIn\<close> declares no \<^verbatim>\<open>retailer_id\<close> and keeps pydantic's default
  configuration, under which validation drops the keys the model does not declare.
\<close>

record OrderBody = OrderIn +
  extra_keys :: "(string \<times> string) list"

definition validate_OrderIn :: "OrderBody \<Rightarrow> OrderIn" where
  "validate_OrderIn b =
     \<lparr>order_number = order_number b, status = status b, total_amount = total_amount b,
      currency = currency b, items = items b, order_notes = order_notes b\<rparr>"

record LeadIn =
  lead_name :: string
  lead_email :: string
  lead_role :: string
  lead_company :: "string option"
  lead_message :: "string option"
  consent :: bool

subsection \<open>The document store\<close>

text \<open>
  A collection is the list of its documents in insertion order, each with its \<^verbatim>\<open>_id\<close>.
  \<^verbatim>\<open>find_one\<close>, \<^verbatim>\<open>update_one\<close> and \<^verbatim>\<open>delete_one\<close> act on the first document that matches
  the filter; \<^verbatim>\<open>find\<close> returns all of them.
\<close>

type_synonym 'a collection = "(objectid \<times> 'a) list"

record database =
  lead :: "LeadIn collection"
  retailer :: "Retailer collection"
  session :: "Session collection"
  order :: "Order collection"

definition find_all :: "('a \<Rightarrow> bool) \<Rightarrow> 'a list \<Rightarrow> 'a list" where
  "find_all P c = filter P c"

fun find_one :: "('a \<Rightarrow> bool) \<Rightarrow> 'a list \<Rightarrow> 'a option" where
  "find_one P [] = None"
| "find_one P (d # ds) = (if P d then Some d else find_one P ds)"

fun update_one :: "('a \<Rightarrow> bool) \<Rightarrow> ('a \<Rightarrow> 'a) \<Rightarrow> 'a list \<Rightarrow> 'a list" where
  "update_one P f [] = []"
| "update_one P f (d # ds) = (if P d then f d # ds else d # update_one P f ds)"

fun delete_one :: "('a \<Rightarrow> bool) \<Rightarrow> 'a list \<Rightarrow> 'a list" where
  "delete_one P [] = []"
| "delete_one P (d # ds) = (if P d then ds else d # delete_one P ds)"

text \<open>
  Modelled from the spec: \<^verbatim>\<open>create_document\<close> of module \<^verbatim>\<open>database\<close>, which is not among
  the sources. The spec gives it one effect, the insertion of one record, a generated
  identifier as its result, and a storage failure when it cannot persist. The collection
  is named by the update function of its field; \<open>i\<close> is the identifier the store generates.
\<close>

definition create_document ::
  "database option \<Rightarrow> (('a collection \<Rightarrow> 'a collection) \<Rightarrow> database \<Rightarrow> database) \<Rightarrow> 'a \<Rightarrow>
   objectid \<Rightarrow> exn + (string \<times> database)" where
  "create_document db coll doc i =
     (case db of
        None \<Rightarrow> Inl StorageFailure
      | Some s \<Rightarrow> Inr (str_oid i, coll (\<lambda>c. c @ [(i, doc)]) s))"

record env =
  now :: double          \<comment> \<open>\<^verbatim>\<open>time.time()\<close>\<close>
  new_token :: string    \<comment> \<open>\<^verbatim>\<open>secrets.token_urlsafe(32)\<close>\<close>
  new_id :: objectid     \<comment> \<open>the \<^verbatim>\<open>_id\<close> of the document inserted by this request\<close>

subsection \<open>Responses\<close>

datatype response =
    StatusOkId string                     \<comment> \<open>\<^verbatim>\<open>{"status": "ok", "id": ...}\<close>\<close>
  | TokenOut string                       \<comment> \<open>\<^verbatim>\<open>TokenOut(token=...)\<close>\<close>
  | OrdersOut "(string \<times> Order) list"     \<comment> \<open>\<^verbatim>\<open>{"orders": [...]}\<close>, each \<^verbatim>\<open>_id\<close> as a string\<close>
  | StatusOk                              \<comment> \<open>\<^verbatim>\<open>{"status": "ok"}\<close>\<close>

subsection \<open>Credential hashing\<close>

definition SALT :: string where
  "SALT = ''ld_static_salt_v1''"

definition hash_password :: "(string \<Rightarrow> string) \<Rightarrow> pystr \<Rightarrow> exn + string" where
  "hash_password sha pw =
     (case encode (ascii SALT @ pw) of
        Inl x \<Rightarrow> Inl x
      | Inr bytes \<Rightarrow> (let digest = sha bytes in Inr (SALT @ ''$'' @ digest)))"

subsection \<open>Registration and login\<close>

text \<open>
  \<^verbatim>\<open>register\<close> tests the truth value of \<^verbatim>\<open>db\<close> (\<^verbatim>\<open>if db\<close>), where every other endpoint
  compares it with \<^verbatim>\<open>None\<close>. \<^verbatim>\<open>db\<close> is a pymongo \<^verbatim>\<open>Database\<close> or \<^verbatim>\<open>None\<close>, and \<^verbatim>\<open>bool()\<close> of a
  \<^verbatim>\<open>Database\<close> raises \<^verbatim>\<open>NotImplementedError\<close> (PyMongo 4 and later).
\<close>

definition truth :: "database option \<Rightarrow> exn + bool" where
  \<comment> \<open>\<^verbatim>\<open>bool(db)\<close>\<close>
  "truth db = (case db of None \<Rightarrow> Inr False | Some s \<Rightarrow> Inl NotImplementedError)"

definition register ::
  "(string \<Rightarrow> string) \<Rightarrow> database option \<Rightarrow> string \<Rightarrow> pystr \<Rightarrow> string option \<Rightarrow> string option \<Rightarrow>
   env \<Rightarrow> (exn + response) \<times> database option" where
  "register sha db data_email data_password data_company data_contact_name e =
     (case truth db of
        Inl x \<Rightarrow> (Inl x, db)
      | Inr b \<Rightarrow>
          (let existing =
                 (if b then (case db of
                               Some s \<Rightarrow> find_all (\<lambda>d. email (snd d) = data_email) (retailer s)
                             | None \<Rightarrow> [])
                  else [])
           in if existing \<noteq> [] then (Inl (HTTPException 400 ''Account already exists''), db)
              else
                (case hash_password sha data_password of
                   Inl x \<Rightarrow> (Inl x, db)
                 | Inr h \<Rightarrow>
                     (let doc = \<lparr>email = data_email, password_hash = h,
                                 company = data_company, contact_name = data_contact_name,
                                 role = ''retailer''\<rparr>
                      in case create_document db retailer_update doc (new_id e) of
                           Inl x \<Rightarrow> (Inl x, db)
                         | Inr (rid, s') \<Rightarrow> (Inr (StatusOkId rid), Some s')))))"

definition login ::
  "(string \<Rightarrow> string) \<Rightarrow> database option \<Rightarrow> string \<Rightarrow> pystr \<Rightarrow> env \<Rightarrow>
   (exn + response) \<times> database option" where
  "login sha db data_email data_password e =
     (case db of
        None \<Rightarrow> (Inl (HTTPException 500 ''Database not available''), db)
      | Some s \<Rightarrow>
          (case find_one (\<lambda>d. email (snd d) = data_email) (retailer s) of
             None \<Rightarrow> (Inl (HTTPException 401 ''Invalid credentials''), db)
           | Some rec \<Rightarrow>
               (case hash_password sha data_password of
                  Inl x \<Rightarrow> (Inl x, db)
                | Inr h \<Rightarrow>
                    if password_hash (snd rec) \<noteq> h
                    then (Inl (HTTPException 401 ''Invalid credentials''), db)
                    else
                      let token = new_token e;
                          sess = \<lparr>token = token, session_retailer_id = str_oid (fst rec),
                                  expires_at = fadd (now e) (Double (60 * 60 * 24 * 7) 0)\<rparr>
                      in case create_document db session_update sess (new_id e) of
                           Inl x \<Rightarrow> (Inl x, db)
                         | Inr (sid, s') \<Rightarrow> (Inr (TokenOut token), Some s'))))"

subsection \<open>The bearer-token dependency\<close>

definition get_current_retailer ::
  "database option \<Rightarrow> string option \<Rightarrow> double \<Rightarrow> exn + (objectid \<times> Retailer)" where
  "get_current_retailer db authorization t =
     (case db of
        None \<Rightarrow> Inl (HTTPException 500 ''Database not available'')
      | Some s \<Rightarrow>
          (case authorization of
             None \<Rightarrow> Inl (HTTPException 401 ''Missing token'')
           | Some a \<Rightarrow>
               if a = [] \<or> \<not> startswith (lower a) ''bearer ''
               then Inl (HTTPException 401 ''Missing token'')
               else
                 (case split1 a of
                    _ # tok # _ \<Rightarrow>
                      (case find_one (\<lambda>d. token (snd d) = tok) (session s) of
                         None \<Rightarrow> Inl (HTTPException 401 ''Invalid or expired token'')
                       | Some sess \<Rightarrow>
                           if expires_at (snd sess) < t
                           then Inl (HTTPException 401 ''Invalid or expired token'')
                           else
                             (case ObjectId (session_retailer_id (snd sess)) of
                                Inl x \<Rightarrow> Inl x
                              | Inr rid \<Rightarrow>
                                  (case find_one (\<lambda>d. fst d = rid) (retailer s) of
                                     None \<Rightarrow> Inl (HTTPException 401 ''Retailer not found'')
                                   | Some r \<Rightarrow> Inr r)))
                  | _ \<Rightarrow> Inl IndexError)))"

subsection \<open>Order endpoints\<close>

definition list_orders :: "database option \<Rightarrow> objectid \<times> Retailer \<Rightarrow> exn + response" where
  "list_orders db current =
     (case db of
        None \<Rightarrow> Inl (HTTPException 500 ''Database not available'')
      | Some s \<Rightarrow>
          (let orders = find_all (\<lambda>d. retailer_id (snd d) = str_oid (fst current)) (order s)
           in Inr (OrdersOut (map (\<lambda>d. (str_oid (fst d), snd d)) orders))))"

definition create_order ::
  "database option \<Rightarrow> OrderIn \<Rightarrow> objectid \<times> Retailer \<Rightarrow> env \<Rightarrow>
   (exn + response) \<times> database option" where
  "create_order db data current e =
     (let ord_doc = \<lparr>order_number = order_number data, status = status data,
                     total_amount = total_amount data, currency = currency data,
                     items = items data, order_notes = order_notes data,
                     retailer_id = str_oid (fst current)\<rparr>
      in case create_document db order_update ord_doc (new_id e) of
           Inl x \<Rightarrow> (Inl x, db)
         | Inr (oid, s') \<Rightarrow> (Inr (StatusOkId oid), Some s'))"

definition set_fields :: "OrderIn \<Rightarrow> objectid \<times> Order \<Rightarrow> objectid \<times> Order" where
  \<comment> \<open>\<^verbatim>\<open>{"$set": data.model_dump()}\<close>\<close>
  "set_fields data d =
     (fst d, (snd d)\<lparr>order_number := order_number data, status := status data,
                     total_amount := total_amount data, currency := currency data,
                     items := items data, order_notes := order_notes data\<rparr>)"

definition update_order ::
  "database option \<Rightarrow> string \<Rightarrow> OrderIn \<Rightarrow> objectid \<times> Retailer \<Rightarrow>
   (exn + response) \<times> database option" where
  "update_order db order_id data current =
     (case db of
        None \<Rightarrow> (Inl (HTTPException 500 ''Database not available''), db)
      | Some s \<Rightarrow>
          (case ObjectId order_id of
             Inl x \<Rightarrow> (Inl x, db)
           | Inr i \<Rightarrow>
               (Inr StatusOk,
                Some (s\<lparr>order := update_one
                          (\<lambda>d. fst d = i \<and> retailer_id (snd d) = str_oid (fst current))
                          (set_fields data) (order s)\<rparr>))))"

definition delete_order ::
  "database option \<Rightarrow> string \<Rightarrow> objectid \<times> Retailer \<Rightarrow> (exn + response) \<times> database option" where
  "delete_order db order_id current =
     (case db of
        None \<Rightarrow> (Inl (HTTPException 500 ''Database not available''), db)
      | Some s \<Rightarrow>
          (case ObjectId order_id of
             Inl x \<Rightarrow> (Inl x, db)
           | Inr i \<Rightarrow>
               (Inr StatusOk,
                Some (s\<lparr>order := delete_one
                          (\<lambda>d. fst d = i \<and> retailer_id (snd d) = str_oid (fst current))
                          (order s)\<rparr>))))"

definition create_lead ::
  "database option \<Rightarrow> LeadIn \<Rightarrow> env \<Rightarrow> (exn + response) \<times> database option" where
  "create_lead db l e =
     (case create_document db lead_update l (new_id e) of
        Inl x \<Rightarrow> (Inl (HTTPException 500 ''''), db)  \<comment> \<open>detail: the text of the exception\<close>
      | Inr (lead_id, s') \<Rightarrow> (Inr (StatusOkId lead_id), Some s'))"

subsection \<open>Requests\<close>

text \<open>
  One request to the API. An order endpoint runs its dependency \<^verbatim>\<open>get_current_retailer\<close>
  on the Authorization header first and the endpoint body only when that returned.
\<close>

datatype request =
    PostLead LeadIn
  | PostRegister string pystr "string option" "string option"
  | PostLogin string pystr
  | GetOrders "string option"
  | PostOrder "string option" OrderBody
  | PutOrder "string option" string OrderBody
  | DeleteOrder "string option" string

fun handle ::
  "(string \<Rightarrow> string) \<Rightarrow> database option \<Rightarrow> env \<Rightarrow> request \<Rightarrow> (exn + response) \<times> database option"
  where
  "handle sha db e (PostLead l) = create_lead db l e"
| "handle sha db e (PostRegister em pw co cn) = register sha db em pw co cn e"
| "handle sha db e (PostLogin em pw) = login sha db em pw e"
| "handle sha db e (GetOrders a) =
     (case get_current_retailer db a (now e) of
        Inl x \<Rightarrow> (Inl x, db)
      | Inr current \<Rightarrow> (list_orders db current, db))"
| "handle sha db e (PostOrder a b) =
     (case get_current_retailer db a (now e) of
        Inl x \<Rightarrow> (Inl x, db)
      | Inr current \<Rightarrow> create_order db (validate_OrderIn b) current e)"
| "handle sha db e (PutOrder a order_id b) =
     (case get_current_retailer db a (now e) of
        Inl x \<Rightarrow> (Inl x, db)
      | Inr current \<Rightarrow> update_order db order_id (validate_OrderIn b) current)"
| "handle sha db e (DeleteOrder a order_id) =
     (case get_current_retailer db a (now e) of
        Inl x \<Rightarrow> (Inl x, db)
      | Inr current \<Rightarrow> delete_order db order_id current)"

fun run ::
  "(string \<Rightarrow> string) \<Rightarrow> database option \<Rightarrow> (env \<times> request) list \<Rightarrow> database option" where
  "run sha db [] = db"
| "run sha db ((e, r) # rs) = run sha (snd (handle sha db e r)) rs"

subsection \<open>Properties of stores\<close>

definition unique_emails :: "database option \<Rightarrow> bool" where
  \<comment> \<open>at most one Retailer per email\<close>
  "unique_emails db =
     (case db of None \<Rightarrow> True | Some s \<Rightarrow> distinct (map (\<lambda>d. email (snd d)) (retailer s)))"

definition foreign_orders :: "objectid \<times> Retailer \<Rightarrow> database \<Rightarrow> Order collection" where
  \<comment> \<open>the orders that do not belong to the given retailer, in store order\<close>
  "foreign_orders current s =
     filter (\<lambda>d. retailer_id (snd d) \<noteq> str_oid (fst current)) (order s)"

definition owners :: "database \<Rightarrow> (objectid \<times> string) list" where
  \<comment> \<open>the \<^verbatim>\<open>_id\<close> and the \<^verbatim>\<open>retailer_id\<close> of every order, in store order\<close>
  "owners s = map (\<lambda>d. (fst d, retailer_id (snd d))) (order s)"

subsection \<open>The stages of session validation\<close>

text \<open>
  The stages at which the specification lets session validation fail, and the detail of
  the \<^verbatim>\<open>HTTPException\<close> that \<^verbatim>\<open>get_current_retailer\<close> raises at each.
\<close>

datatype AuthError = MissingToken | InvalidToken | ExpiredToken | RetailerNotFound

fun detail :: "AuthError \<Rightarrow> string" where
  "detail MissingToken = ''Missing token''"
| "detail InvalidToken = ''Invalid or expired token''"
| "detail ExpiredToken = ''Invalid or expired token''"
| "detail RetailerNotFound = ''Retailer not found''"

definition bearer_token :: "string option \<Rightarrow> string option" where
  \<comment> \<open>the token of a header that is present and starts with \<^verbatim>\<open>Bearer \<close>, in any case\<close>
  "bearer_token authorization =
     (case authorization of
        None \<Rightarrow> None
      | Some a \<Rightarrow> if startswith (lower a) ''bearer '' then Some (drop 7 a) else None)"

definition auth_stage :: "database \<Rightarrow> string option \<Rightarrow> double \<Rightarrow> AuthError option" where
  \<comment> \<open>the stage at which a request fails at time \<open>t\<close>; \<open>None\<close> when it passes all of them\<close>
  "auth_stage s authorization t =
     (case bearer_token authorization of
        None \<Rightarrow> Some MissingToken
      | Some tok \<Rightarrow>
          (case find_one (\<lambda>d. token (snd d) = tok) (session s) of
             None \<Rightarrow> Some InvalidToken
           | Some sess \<Rightarrow>
               if expires_at (snd sess) < t then Some ExpiredToken
               else if \<exists>r\<in>set (retailer s). str_oid (fst r) = session_retailer_id (snd sess)
                    then None else Some RetailerNotFound))"

definition wf_sessions :: "database \<Rightarrow> bool" where
  \<comment> \<open>every session names its retailer by the \<^verbatim>\<open>str()\<close> of an object id\<close>
  "wf_sessions s = (\<forall>d\<in>set (session s). wf_oid (Oid (session_retailer_id (snd d))))"

subsection \<open>Example data\<close>

text \<open>
  Two retailers, a session of each and one order of the first retailer. \<open>ex_sha\<close> stands in
  for the digest in the examples; the theorems hold for every digest function.
\<close>

definition ex_sha :: "string \<Rightarrow> string" where
  "ex_sha m = rev m"

definition ex_hash :: "string \<Rightarrow> string" where
  \<comment> \<open>the stored hash of an ASCII password under \<open>ex_sha\<close>\<close>
  "ex_hash p = SALT @ ''$'' @ ex_sha (SALT @ p)"

definition bad_pw :: pystr where
  \<comment> \<open>the password \<^verbatim>\<open>"\ud800"\<close>, one lone surrogate\<close>
  "bad_pw = [0xD800]"

definition oidA :: objectid where "oidA = Oid ''aaaaaaaaaaaaaaaaaaaaaaaa''"
definition oidB :: objectid where "oidB = Oid ''bbbbbbbbbbbbbbbbbbbbbbbb''"
definition oidS :: objectid where "oidS = Oid ''555555555555555555555555''"
definition oidT :: objectid where "oidT = Oid ''666666666666666666666666''"
definition oid1 :: objectid where "oid1 = Oid ''111111111111111111111111''"
definition oid2 :: objectid where "oid2 = Oid ''222222222222222222222222''"

definition retA :: Retailer where
  "retA = \<lparr>email = ''a@x.com'', password_hash = ex_hash ''pw1'',
           company = None, contact_name = None, role = ''retailer''\<rparr>"

definition retB :: Retailer where
  "retB = \<lparr>email = ''b@x.com'', password_hash = ex_hash ''pw2'',
           company = None, contact_name = None, role = ''retailer''\<rparr>"

definition sessA :: Session where
  "sessA = \<lparr>token = ''tokA'', session_retailer_id = ''aaaaaaaaaaaaaaaaaaaaaaaa'',
            expires_at = Double 1000 0\<rparr>"

definition sessB :: Session where
  "sessB = \<lparr>token = ''tokB'', session_retailer_id = ''bbbbbbbbbbbbbbbbbbbbbbbb'',
            expires_at = Double 2000 0\<rparr>"

definition ordA :: Order where
  "ordA = \<lparr>order_number = ''A-1'', status = Processing, total_amount = 10, currency = ''EUR'',
           items = [], order_notes = None, retailer_id = ''aaaaaaaaaaaaaaaaaaaaaaaa''\<rparr>"

definition ex_db :: database where
  "ex_db = \<lparr>lead = [], retailer = [(oidA, retA), (oidB, retB)], session = [(oidS, sessA), (oidT, sessB)],
            order = [(oid1, ordA)]\<rparr>"

definition empty_db :: database where
  "empty_db = \<lparr>lead = [], retailer = [], session = [], order = []\<rparr>"

definition ex_body :: OrderBody where
  \<comment> \<open>a body that also carries a \<^verbatim>\<open>retailer_id\<close> key, naming the first retailer\<close>
  "ex_body = \<lparr>order_number = ''B-7'', status = Shipped, total_amount = 5, currency = ''EUR'',
              items = [], order_notes = None,
              extra_keys = [(''retailer_id'', ''aaaaaaaaaaaaaaaaaaaaaaaa'')]\<rparr>"

definition ex_env :: env where
  "ex_env = \<lparr>now = Double 100 0, new_token = ''tokN'', new_id = oid2\<rparr>"


section \<open>Auxiliary facts\<close>

subsection \<open>Doubles\<close>

declare bitlen.simps [simp del]

lemma Double_less [simp]:
  "Double m e < Double m' e' \<longleftrightarrow>
     m * 2 ^ nat (e - min e e') < m' * 2 ^ nat (e' - min e e')"
  by (simp add: less_double_def Let_def)

lemma Double_less_eq [simp]:
  "Double m e \<le> Double m' e' \<longleftrightarrow>
     m * 2 ^ nat (e - min e e') \<le> m' * 2 ^ nat (e' - min e e')"
  by (simp add: less_eq_double_def Let_def)

lemma not_less_double: "\<not> x < y \<longleftrightarrow> y \<le> (x::double)"
  by (cases x; cases y) (simp add: not_less min.commute)

lemma dval_aligned:
  "e0 \<le> expo x \<Longrightarrow> dval x = of_int (aligned x e0) * 2 powr of_int e0"
proof (cases x)
  case (Double m e)
  assume "e0 \<le> expo x"
  with Double have le: "e0 \<le> e" by simp
  have "(2::real) powr of_int e = 2 powr (of_int (e - e0) + of_int e0)"
    by simp
  also have "\<dots> = 2 powr of_int (e - e0) * 2 powr of_int e0"
    by (rule powr_add)
  also have "(2::real) powr of_int (e - e0) = 2 ^ nat (e - e0)"
    using le by (simp add: powr_realpow [symmetric])
  finally show ?thesis using Double by simp
qed

lemma less_double_iff: "x < y \<longleftrightarrow> dval x < dval y"
proof -
  let ?e = "min (expo x) (expo y)"
  have "dval x = of_int (aligned x ?e) * 2 powr of_int ?e"
    "dval y = of_int (aligned y ?e) * 2 powr of_int ?e"
    by (simp_all add: dval_aligned)
  moreover have "(0::real) < 2 powr of_int ?e" by simp
  ultimately show ?thesis
    by (simp add: less_double_def Let_def)
qed


subsection \<open>Store operations\<close>

lemma update_one_noop: "\<forall>d\<in>set c. \<not> P d \<Longrightarrow> update_one P f c = c"
  by (induction c) auto

lemma delete_one_noop: "\<forall>d\<in>set c. \<not> P d \<Longrightarrow> delete_one P c = c"
  by (induction c) auto

lemma update_one_filter:
  "(\<And>d. P d \<Longrightarrow> \<not> Q d) \<Longrightarrow> (\<And>d. P d \<Longrightarrow> \<not> Q (f d)) \<Longrightarrow>
   filter Q (update_one P f c) = filter Q c"
  by (induction c) auto

lemma delete_one_filter:
  "(\<And>d. P d \<Longrightarrow> \<not> Q d) \<Longrightarrow> filter Q (delete_one P c) = filter Q c"
  by (induction c) auto

lemma update_one_map:
  "(\<And>d. g (f d) = g d) \<Longrightarrow> map g (update_one P f c) = map g c"
  by (induction c) auto

lemma set_fields_owner [simp]:
  "retailer_id (snd (set_fields data d)) = retailer_id (snd d)"
  "fst (set_fields data d) = fst d"
  by (simp_all add: set_fields_def)

lemma update_one_foreign:
  "filter (\<lambda>d. retailer_id (snd d) \<noteq> r)
     (update_one (\<lambda>d. fst d = b \<and> retailer_id (snd d) = r) (set_fields data) c)
   = filter (\<lambda>d. retailer_id (snd d) \<noteq> r) c"
  by (rule update_one_filter) simp_all

lemma delete_one_foreign:
  "filter (\<lambda>d. retailer_id (snd d) \<noteq> r)
     (delete_one (\<lambda>d. fst d = b \<and> retailer_id (snd d) = r) c)
   = filter (\<lambda>d. retailer_id (snd d) \<noteq> r) c"
  by (rule delete_one_filter) simp_all

subsection \<open>The example data\<close>

lemmas ex_defs = ex_db_def empty_db_def oidA_def oidB_def oidS_def oidT_def oid1_def oid2_def
  retA_def retB_def sessA_def sessB_def ordA_def ex_body_def ex_env_def

lemma ObjectId_ex [simp]:
  "ObjectId ''111111111111111111111111'' = Inr (Oid ''111111111111111111111111'')"
  "ObjectId ''aaaaaaaaaaaaaaaaaaaaaaaa'' = Inr (Oid ''aaaaaaaaaaaaaaaaaaaaaaaa'')"
  "ObjectId ''bbbbbbbbbbbbbbbbbbbbbbbb'' = Inr (Oid ''bbbbbbbbbbbbbbbbbbbbbbbb'')"
  "ObjectId ''abc'' = Inl InvalidId"
  by (simp_all add: ObjectId_def is_hex_def is_space_def lower_char_def)

lemma auth_ex:
  "get_current_retailer (Some ex_db) (Some ''Bearer tokB'') (Double 100 0) = Inr (oidB, retB)"
  by (simp add: get_current_retailer_def startswith_def lower_def lower_char_def split1_def
      char_of_eq_iff ex_defs)

section \<open>Order ownership\<close>

text \<open>
  Claim C1 (cross-tenant isolation). Let \<open>current\<close> be the authenticated retailer B.
  \<^verbatim>\<open>list_orders\<close> returns only orders whose \<^verbatim>\<open>retailer_id\<close> is B's id, so no order of
  another retailer A is in the listing. \<^verbatim>\<open>update_order\<close> and \<^verbatim>\<open>delete_order\<close>, for every
  \<^verbatim>\<open>order_id\<close> whatsoever (A's exact id included) and every payload, leave the sequence of
  all orders that are not B's exactly as it was: none is modified, none is removed.
\<close>

theorem cross_tenant_isolation:
  "(\<exists>l. list_orders (Some s) current = Inr (OrdersOut l)
        \<and> (\<forall>x\<in>set l. retailer_id (snd x) = str_oid (fst current)))
   \<and> (\<exists>s'. snd (update_order (Some s) order_id data current) = Some s'
        \<and> foreign_orders current s' = foreign_orders current s)
   \<and> (\<exists>s'. snd (delete_order (Some s) order_id current) = Some s'
        \<and> foreign_orders current s' = foreign_orders current s)"
proof (intro conjI)
  show "\<exists>l. list_orders (Some s) current = Inr (OrdersOut l)
        \<and> (\<forall>x\<in>set l. retailer_id (snd x) = str_oid (fst current))"
    by (simp add: list_orders_def find_all_def)
  show "\<exists>s'. snd (update_order (Some s) order_id data current) = Some s'
        \<and> foreign_orders current s' = foreign_orders current s"
    by (cases "ObjectId order_id")
      (simp_all add: update_order_def foreign_orders_def update_one_foreign)
  show "\<exists>s'. snd (delete_order (Some s) order_id current) = Some s'
        \<and> foreign_orders current s' = foreign_orders current s"
    by (cases "ObjectId order_id")
      (simp_all add: delete_order_def foreign_orders_def delete_one_foreign)
qed

text \<open>
  The second retailer lists, updates and deletes with the exact id of the first
  retailer's order: the listing is empty and the order stays as it is.
\<close>

theorem cross_tenant_isolation_witness:
  "list_orders (Some ex_db) (oidB, retB) = Inr (OrdersOut [])
   \<and> foreign_orders (oidB, retB) ex_db = [(oid1, ordA)]
   \<and> (\<exists>s'. snd (update_order (Some ex_db) ''111111111111111111111111''
               (validate_OrderIn ex_body) (oidB, retB)) = Some s'
        \<and> foreign_orders (oidB, retB) s' = [(oid1, ordA)])
   \<and> (\<exists>s'. snd (delete_order (Some ex_db) ''111111111111111111111111'' (oidB, retB)) = Some s'
        \<and> foreign_orders (oidB, retB) s' = [(oid1, ordA)])"
proof -
  have f: "foreign_orders (oidB, retB) ex_db = [(oid1, ordA)]"
    by (simp add: foreign_orders_def ex_defs)
  have l: "list_orders (Some ex_db) (oidB, retB) = Inr (OrdersOut [])"
    by (simp add: list_orders_def find_all_def ex_defs)
  from cross_tenant_isolation [of ex_db "(oidB, retB)" "''111111111111111111111111''"
      "validate_OrderIn ex_body"] f l
  show ?thesis by simp
qed

text \<open>
  Claim C6 (owner stamping on create). When the Authorization header of a
  \<^verbatim>\<open>POST /api/orders\<close> request authenticates retailer \<open>current\<close>, the request appends
  exactly one order to the store, under the generated identifier, whose \<^verbatim>\<open>retailer_id\<close>
  is \<open>current\<close>'s id and whose other fields are those of the body, and answers with that
  identifier. The keys of the body that \<^verbatim>\<open>OrderIn\<close> does not declare, a
  \<^verbatim>\<open>retailer_id\<close> among them, do not occur in the result.
\<close>

theorem create_order_stamps_owner:
  assumes "get_current_retailer (Some s) a (now e) = Inr current"
  shows "handle sha (Some s) e (PostOrder a b) =
           (Inr (StatusOkId (str_oid (new_id e))),
            Some (s\<lparr>order := order s @
              [(new_id e, \<lparr>order_number = order_number b, status = status b,
                           total_amount = total_amount b, currency = currency b,
                           items = items b, order_notes = order_notes b,
                           retailer_id = str_oid (fst current)\<rparr>)]\<rparr>))"
  using assms by (simp add: create_order_def create_document_def validate_OrderIn_def)

text \<open>
  The second retailer posts a body that names the first retailer in a \<^verbatim>\<open>retailer_id\<close>
  key: the stored order carries the second retailer's id.
\<close>

theorem create_order_stamps_owner_witness:
  "get_current_retailer (Some ex_db) (Some ''Bearer tokB'') (now ex_env) = Inr (oidB, retB)
   \<and> extra_keys ex_body = [(''retailer_id'', ''aaaaaaaaaaaaaaaaaaaaaaaa'')]
   \<and> handle ex_sha (Some ex_db) ex_env (PostOrder (Some ''Bearer tokB'') ex_body) =
       (Inr (StatusOkId ''222222222222222222222222''),
        Some (ex_db\<lparr>order := [(oid1, ordA),
          (oid2, \<lparr>order_number = ''B-7'', status = Shipped, total_amount = 5, currency = ''EUR'',
                  items = [], order_notes = None,
                  retailer_id = ''bbbbbbbbbbbbbbbbbbbbbbbb''\<rparr>)]\<rparr>))"
proof -
  have a: "get_current_retailer (Some ex_db) (Some ''Bearer tokB'') (now ex_env) = Inr (oidB, retB)"
    using auth_ex by (simp add: ex_env_def)
  have o: "order ex_db = [(oid1, ordA)]"
    by (simp add: ex_db_def)
  from create_order_stamps_owner [OF a, of ex_sha ex_body] o
  show ?thesis using a by (simp add: ex_body_def ex_env_def oid2_def oidB_def)
qed

text \<open>
  Claim C7 (silent zero-effect semantics), as stated, at an \<^verbatim>\<open>order_id\<close> that is absent
  from the store: the store has no order at all, the \<^verbatim>\<open>order_id\<close> is \<^verbatim>\<open>abc\<close>, and neither
  \<^verbatim>\<open>update_order\<close> nor \<^verbatim>\<open>delete_order\<close> answers \<^verbatim>\<open>{"status": "ok"}\<close>: \<^verbatim>\<open>ObjectId("abc")\<close>
  raises \<^verbatim>\<open>InvalidId\<close>.
\<close>

theorem zero_effect_malformed_id:
  "order empty_db = []
   \<and> update_order (Some empty_db) ''abc'' (validate_OrderIn ex_body) (oidB, retB)
       = (Inl InvalidId, Some empty_db)
   \<and> delete_order (Some empty_db) ''abc'' (oidB, retB) = (Inl InvalidId, Some empty_db)"
  by (simp add: update_order_def delete_order_def empty_db_def)

text \<open>
  Claim C7, amended. For every authenticated retailer B and every \<^verbatim>\<open>order_id\<close> that is a
  well-formed object id (one that \<^verbatim>\<open>ObjectId\<close> accepts, as it does 24 hexadecimal digits)
  and is absent or belongs to a different retailer, \<^verbatim>\<open>update_order\<close> and \<^verbatim>\<open>delete_order\<close> answer \<^verbatim>\<open>{"status": "ok"}\<close> and leave the
  store unchanged; the answer is the same \<^verbatim>\<open>{"status": "ok"}\<close> in every store \<open>s'\<close>, the ones
  where the order is B's own included.
\<close>

theorem zero_effect_ok:
  assumes "ObjectId order_id = Inr i"
    and "\<forall>d\<in>set (order s). fst d = i \<longrightarrow> retailer_id (snd d) \<noteq> str_oid (fst current)"
  shows "update_order (Some s) order_id data current = (Inr StatusOk, Some s)
       \<and> delete_order (Some s) order_id current = (Inr StatusOk, Some s)
       \<and> fst (update_order (Some s') order_id data current) = Inr StatusOk
       \<and> fst (delete_order (Some s') order_id current) = Inr StatusOk"
proof -
  have "\<forall>d\<in>set (order s). \<not> (fst d = i \<and> retailer_id (snd d) = str_oid (fst current))"
    using assms(2) by blast
  then show ?thesis
    using assms(1)
    by (simp add: update_order_def delete_order_def update_one_noop delete_one_noop)
qed

text \<open>
  The second retailer updates and deletes with the id of the first retailer's order:
  \<^verbatim>\<open>ok\<close>, store unchanged. The first retailer, who owns it, gets the same \<^verbatim>\<open>ok\<close>.
\<close>

theorem zero_effect_ok_witness:
  "ObjectId ''111111111111111111111111'' = Inr oid1
   \<and> order ex_db = [(oid1, ordA)] \<and> retailer_id ordA \<noteq> str_oid oidB
   \<and> update_order (Some ex_db) ''111111111111111111111111'' (validate_OrderIn ex_body)
       (oidB, retB) = (Inr StatusOk, Some ex_db)
   \<and> delete_order (Some ex_db) ''111111111111111111111111'' (oidB, retB)
       = (Inr StatusOk, Some ex_db)
   \<and> fst (update_order (Some ex_db) ''111111111111111111111111'' (validate_OrderIn ex_body)
       (oidA, retA)) = Inr StatusOk
   \<and> fst (delete_order (Some ex_db) ''111111111111111111111111'' (oidA, retA)) = Inr StatusOk"
proof -
  have i: "ObjectId ''111111111111111111111111'' = Inr oid1"
    by (simp add: oid1_def)
  have f: "\<forall>d\<in>set (order ex_db).
             fst d = oid1 \<longrightarrow> retailer_id (snd d) \<noteq> str_oid (fst (oidB, retB))"
    by (simp add: ex_defs)
  have g: "\<forall>d\<in>set (order empty_db).
             fst d = oid1 \<longrightarrow> retailer_id (snd d) \<noteq> str_oid (fst (oidA, retA))"
    by (simp add: empty_db_def)
  from zero_effect_ok [OF i f, of "validate_OrderIn ex_body" ex_db]
       zero_effect_ok [OF i g, of "validate_OrderIn ex_body" ex_db]
  show ?thesis using i by (simp add: ex_defs)
qed

text \<open>
  Claim C10 (update preserves ownership). \<^verbatim>\<open>update_order\<close>, for every store (or none),
  \<^verbatim>\<open>order_id\<close>, payload and authenticated retailer, leaves the \<^verbatim>\<open>_id\<close> and the
  \<^verbatim>\<open>retailer_id\<close> of every order as they were. The \<^verbatim>\<open>$set\<close> it applies writes the six
  fields of \<^verbatim>\<open>OrderIn\<close>, which become those of the payload, and keeps the document's
  \<^verbatim>\<open>_id\<close> and \<^verbatim>\<open>retailer_id\<close>.
\<close>

theorem update_preserves_owner:
  "map_option owners (snd (update_order db order_id data current)) = map_option owners db
   \<and> retailer_id (snd (set_fields data d)) = retailer_id (snd d)
   \<and> fst (set_fields data d) = fst d
   \<and> OrderIn.truncate (snd (set_fields data d)) = data"
proof (intro conjI)
  show "map_option owners (snd (update_order db order_id data current)) = map_option owners db"
    by (cases db; cases "ObjectId order_id")
      (simp_all add: update_order_def owners_def update_one_map)
qed (simp_all add: set_fields_def OrderIn.truncate_def)

section \<open>Session validation\<close>

subsection \<open>Header parsing and lookups\<close>

lemma lower_char_space: "lower_char c = CHR '' '' \<longleftrightarrow> c = CHR '' ''"
proof
  assume "c = CHR '' ''"
  then show "lower_char c = CHR '' ''" by (simp add: lower_char_def)
next
  assume a: "lower_char c = CHR '' ''"
  have "(of_char c :: nat) < 256" by simp
  with a show "c = CHR '' ''"
    by (auto simp: lower_char_def Let_def char_of_eq_iff take_bit_eq_mod split: if_splits)
qed

lemma lower_char_letter:
  "lower_char c = k \<Longrightarrow> k \<noteq> CHR '' '' \<Longrightarrow> c \<noteq> CHR '' ''"
  using lower_char_space by blast

lemma take_Suc_map_Cons:
  "take (Suc n) (map f xs) = y # ys \<longleftrightarrow> (\<exists>x r. xs = x # r \<and> f x = y \<and> take n (map f r) = ys)"
  by (cases xs) auto

lemma split1_bearer:
  assumes "startswith (lower a) ''bearer ''"
  shows "split1 a = [take 6 a, drop 7 a]"
proof -
  from assms obtain c0 c1 c2 c3 c4 c5 c6 r where
    a: "a = c0 # c1 # c2 # c3 # c4 # c5 # c6 # r" and
    l: "lower_char c0 = CHR ''b''" "lower_char c1 = CHR ''e''" "lower_char c2 = CHR ''a''"
       "lower_char c3 = CHR ''r''" "lower_char c4 = CHR ''e''" "lower_char c5 = CHR ''r''"
       "lower_char c6 = CHR '' ''"
    by (auto simp: startswith_def lower_def take_Suc_map_Cons)
  from l(7) have c6: "c6 = CHR '' ''" by (simp add: lower_char_space)
  have n: "c0 \<noteq> CHR '' ''" "c1 \<noteq> CHR '' ''" "c2 \<noteq> CHR '' ''" "c3 \<noteq> CHR '' ''"
    "c4 \<noteq> CHR '' ''" "c5 \<noteq> CHR '' ''"
    using l by (auto dest: lower_char_letter)
  show ?thesis
    unfolding a c6 using n by (simp add: split1_def)
qed

lemma gcr_eq:
  "get_current_retailer (Some s) a t =
     (case bearer_token a of
        None \<Rightarrow> Inl (HTTPException 401 ''Missing token'')
      | Some tok \<Rightarrow>
          (case find_one (\<lambda>d. token (snd d) = tok) (session s) of
             None \<Rightarrow> Inl (HTTPException 401 ''Invalid or expired token'')
           | Some sess \<Rightarrow>
               if expires_at (snd sess) < t
               then Inl (HTTPException 401 ''Invalid or expired token'')
               else
                 (case ObjectId (session_retailer_id (snd sess)) of
                    Inl x \<Rightarrow> Inl x
                  | Inr rid \<Rightarrow>
                      (case find_one (\<lambda>d. fst d = rid) (retailer s) of
                         None \<Rightarrow> Inl (HTTPException 401 ''Retailer not found'')
                       | Some r \<Rightarrow> Inr r))))"
proof (cases a)
  case None
  then show ?thesis by (simp add: get_current_retailer_def bearer_token_def)
next
  case (Some h)
  show ?thesis
  proof (cases "startswith (lower h) ''bearer ''")
    case True
    then have "h \<noteq> []" by (auto simp: startswith_def lower_def)
    with True Some show ?thesis
      by (simp add: get_current_retailer_def bearer_token_def split1_bearer)
  next
    case False
    with Some show ?thesis by (simp add: get_current_retailer_def bearer_token_def)
  qed
qed


lemma find_one_None_iff: "find_one P c = None \<longleftrightarrow> (\<forall>d\<in>set c. \<not> P d)"
  by (induction c) auto

lemma find_one_SomeD: "find_one P c = Some d \<Longrightarrow> d \<in> set c \<and> P d"
  by (induction c) (auto split: if_splits)



lemma find_one_unique:
  "distinct (map k c) \<Longrightarrow> d \<in> set c \<Longrightarrow> find_one (\<lambda>x. k x = k d) c = Some d"
  by (induction c) (auto simp: image_iff)

lemma lower_char_lower_hex: "is_lower_hex c \<Longrightarrow> lower_char c = c"
  by (auto simp: is_lower_hex_def lower_char_def)

lemma lower_hex_is_hex: "is_lower_hex c \<Longrightarrow> is_hex c"
  by (auto simp: is_lower_hex_def is_hex_def)

lemma lower_hex_not_space: "is_lower_hex c \<Longrightarrow> \<not> is_space c"
  by (auto simp: is_lower_hex_def is_space_def)

lemma fromhex_lower_hex:
  "list_all is_lower_hex h \<Longrightarrow> even (length h) \<Longrightarrow> fromhex h = Some h"
  by (induction h rule: fromhex.induct)
    (simp_all add: lower_hex_not_space lower_hex_is_hex lower_char_lower_hex)

lemma ObjectId_wf: "wf_oid (Oid h) \<Longrightarrow> ObjectId h = Inr (Oid h)"
  by (simp add: wf_oid_def ObjectId_def fromhex_lower_hex)


lemma Oid_eq_iff: "i = Oid h \<longleftrightarrow> str_oid i = h"
  by (cases i) auto

lemma wf_sessions_ex: "wf_sessions ex_db"
  by (simp add: wf_sessions_def wf_oid_def is_lower_hex_def ex_defs)

lemma bearer_ex:
  "bearer_token (Some ''Bearer nope'') = Some ''nope''"
  "bearer_token (Some ''Bearer tokA'') = Some ''tokA''"
  "bearer_token (Some ''Bearer tokB'') = Some ''tokB''"
  "bearer_token (Some ''bearer tokB'') = Some ''tokB''"
  "bearer_token (Some ''Bearer '') = Some []"
  "bearer_token (Some ''Basic tokB'') = None"
  "bearer_token None = None"
  by (simp_all add: bearer_token_def startswith_def lower_def lower_char_def char_of_eq_iff)

lemma validate_success_iff:
  assumes ut: "distinct (map (\<lambda>d. token (snd d)) (session s))"
    and ui: "distinct (map fst (retailer s))"
  shows "(get_current_retailer (Some s) a t = Inr r) =
         (\<exists>tok sess. bearer_token a = Some tok \<and> sess \<in> set (session s)
            \<and> token (snd sess) = tok \<and> t \<le> expires_at (snd sess) \<and> r \<in> set (retailer s)
            \<and> ObjectId (session_retailer_id (snd sess)) = Inr (fst r))"
proof
  assume "get_current_retailer (Some s) a t = Inr r"
  then obtain tok sess rid where
    b: "bearer_token a = Some tok" and
    f: "find_one (\<lambda>d. token (snd d) = tok) (session s) = Some sess" and
    e: "\<not> expires_at (snd sess) < t" and
    o: "ObjectId (session_retailer_id (snd sess)) = Inr rid" and
    g: "find_one (\<lambda>d. fst d = rid) (retailer s) = Some r"
    by (auto simp: gcr_eq split: option.splits if_splits sum.splits)
  from f have "sess \<in> set (session s) \<and> token (snd sess) = tok" by (rule find_one_SomeD)
  moreover from g have "r \<in> set (retailer s) \<and> fst r = rid" by (rule find_one_SomeD)
  moreover from e have "t \<le> expires_at (snd sess)" by (simp add: not_less_double)
  ultimately show "\<exists>tok sess. bearer_token a = Some tok \<and> sess \<in> set (session s)
            \<and> token (snd sess) = tok \<and> t \<le> expires_at (snd sess) \<and> r \<in> set (retailer s)
            \<and> ObjectId (session_retailer_id (snd sess)) = Inr (fst r)"
    using b o by blast
next
  assume "\<exists>tok sess. bearer_token a = Some tok \<and> sess \<in> set (session s)
            \<and> token (snd sess) = tok \<and> t \<le> expires_at (snd sess) \<and> r \<in> set (retailer s)
            \<and> ObjectId (session_retailer_id (snd sess)) = Inr (fst r)"
  then obtain tok sess where
    b: "bearer_token a = Some tok" and m: "sess \<in> set (session s)" and
    k: "token (snd sess) = tok" and e: "t \<le> expires_at (snd sess)" and
    r: "r \<in> set (retailer s)" and o: "ObjectId (session_retailer_id (snd sess)) = Inr (fst r)"
    by blast
  from find_one_unique [OF ut m] k
  have f: "find_one (\<lambda>d. token (snd d) = tok) (session s) = Some sess" by simp
  from find_one_unique [OF ui r]
  have g: "find_one (\<lambda>d. fst d = fst r) (retailer s) = Some r" .
  from b f g e o show "get_current_retailer (Some s) a t = Inr r"
    by (simp add: gcr_eq not_less_double)
qed

lemma validate_missing:
  "bearer_token a = None \<Longrightarrow>
   get_current_retailer (Some s) a t = Inl (HTTPException 401 ''Missing token'')"
  by (simp add: gcr_eq)

lemma validate_unknown:
  "bearer_token a = Some tok \<Longrightarrow> \<forall>d\<in>set (session s). token (snd d) \<noteq> tok \<Longrightarrow>
   get_current_retailer (Some s) a t = Inl (HTTPException 401 ''Invalid or expired token'')"
proof -
  assume b: "bearer_token a = Some tok" and n: "\<forall>d\<in>set (session s). token (snd d) \<noteq> tok"
  from n have "find_one (\<lambda>d. token (snd d) = tok) (session s) = None"
    by (simp add: find_one_None_iff)
  with b show ?thesis by (simp add: gcr_eq)
qed

lemma validate_expired:
  assumes "distinct (map (\<lambda>d. token (snd d)) (session s))"
    and "bearer_token a = Some tok" and "sess \<in> set (session s)" and "token (snd sess) = tok"
    and "expires_at (snd sess) < t"
  shows "get_current_retailer (Some s) a t = Inl (HTTPException 401 ''Invalid or expired token'')"
proof -
  from find_one_unique [OF assms(1,3)] assms(4)
  have "find_one (\<lambda>d. token (snd d) = tok) (session s) = Some sess" by simp
  with assms(2,5) show ?thesis by (simp add: gcr_eq)
qed

lemma validate_no_retailer:
  assumes "distinct (map (\<lambda>d. token (snd d)) (session s))"
    and "bearer_token a = Some tok" and "sess \<in> set (session s)" and "token (snd sess) = tok"
    and "t \<le> expires_at (snd sess)"
    and "ObjectId (session_retailer_id (snd sess)) = Inr i"
    and "\<forall>r\<in>set (retailer s). fst r \<noteq> i"
  shows "get_current_retailer (Some s) a t = Inl (HTTPException 401 ''Retailer not found'')"
proof -
  from find_one_unique [OF assms(1,3)] assms(4)
  have "find_one (\<lambda>d. token (snd d) = tok) (session s) = Some sess" by simp
  moreover from assms(7) have "find_one (\<lambda>d. fst d = i) (retailer s) = None"
    by (simp add: find_one_None_iff)
  ultimately show ?thesis using assms(2,5,6) by (simp add: gcr_eq not_less_double)
qed

lemma auth_stage_response:
  assumes "wf_sessions s" and "auth_stage s a t = Some st"
  shows "get_current_retailer (Some s) a t = Inl (HTTPException 401 (detail st))"
proof (cases "bearer_token a")
  case None
  with assms(2) show ?thesis by (auto simp: gcr_eq auth_stage_def)
next
  case (Some tok)
  show ?thesis
  proof (cases "find_one (\<lambda>d. token (snd d) = tok) (session s)")
    case None
    with Some assms(2) show ?thesis by (auto simp: gcr_eq auth_stage_def)
  next
    case (Some sess)
    then have "sess \<in> set (session s)" by (simp add: find_one_SomeD)
    with assms(1) have o: "ObjectId (session_retailer_id (snd sess)) = Inr (Oid (session_retailer_id (snd sess)))"
      by (simp add: wf_sessions_def ObjectId_wf)
    have n: "find_one (\<lambda>d. fst d = Oid h) (retailer s) = None"
      if "\<forall>r\<in>set (retailer s). str_oid (fst r) \<noteq> h" for h
      using that by (simp add: find_one_None_iff Oid_eq_iff)
    from assms(2) \<open>bearer_token a = Some tok\<close> Some o show ?thesis
      by (auto simp: gcr_eq auth_stage_def n split: if_splits)
  qed
qed

text \<open>
  Claim C2 (session validation contract), as stated, at a header whose bearer token is
  empty: the claim has validation fail with MissingToken, and \<^verbatim>\<open>get_current_retailer\<close>
  looks the empty token up and raises the 401 of an unknown token, ``Invalid or expired
  token'', not the ``Missing token'' it raises when there is no header.
\<close>

theorem validate_empty_token:
  "bearer_token (Some ''Bearer '') = Some []
   \<and> get_current_retailer (Some ex_db) (Some ''Bearer '') (Double 100 0)
       = Inl (HTTPException 401 ''Invalid or expired token'')
   \<and> get_current_retailer (Some ex_db) None (Double 100 0) = Inl (HTTPException 401 ''Missing token'')"
  by (simp add: get_current_retailer_def bearer_token_def startswith_def lower_def lower_char_def
      split1_def char_of_eq_iff ex_defs)



text \<open>
  Claim C2, amended. With the database available, tokens unique among the sessions and
  \<^verbatim>\<open>_id\<close> unique among the retailers, \<^verbatim>\<open>get_current_retailer\<close> returns the Retailer \<open>r\<close>
  exactly when (a) the Authorization header is present and starts, in any letter case,
  with \<^verbatim>\<open>Bearer \<close>, its token being the rest of the header, empty or not, (b) a Session
  with exactly that token exists, (c) the session's \<^verbatim>\<open>expires_at\<close> is not before the
  current time, and (d) the session's \<^verbatim>\<open>retailer_id\<close> is the object id of the existing
  Retailer \<open>r\<close>. It raises 401 ``Missing token'' when the header is missing or is not such
  a Bearer header, 401 ``Invalid or expired token'' when no session has the token and also
  when the session with the token is expired, and 401 ``Retailer not found'' when the
  session's \<^verbatim>\<open>retailer_id\<close> is an object id that no Retailer has.
\<close>

theorem validate_contract:
  assumes "distinct (map (\<lambda>d. token (snd d)) (session s))"
    and "distinct (map fst (retailer s))"
  shows "((get_current_retailer (Some s) a t = Inr r) =
           (\<exists>k c. bearer_token a = Some k \<and> c \<in> set (session s)
              \<and> token (snd c) = k \<and> t \<le> expires_at (snd c) \<and> r \<in> set (retailer s)
              \<and> ObjectId (session_retailer_id (snd c)) = Inr (fst r)))
       \<and> (bearer_token a = None \<longrightarrow>
            get_current_retailer (Some s) a t = Inl (HTTPException 401 ''Missing token''))
       \<and> (bearer_token a = Some tok \<and> (\<forall>d\<in>set (session s). token (snd d) \<noteq> tok) \<longrightarrow>
            get_current_retailer (Some s) a t
              = Inl (HTTPException 401 ''Invalid or expired token''))
       \<and> (bearer_token a = Some tok \<and> sess \<in> set (session s)
              \<and> token (snd sess) = tok \<and> expires_at (snd sess) < t \<longrightarrow>
            get_current_retailer (Some s) a t
              = Inl (HTTPException 401 ''Invalid or expired token''))
       \<and> (bearer_token a = Some tok \<and> sess \<in> set (session s)
              \<and> token (snd sess) = tok \<and> t \<le> expires_at (snd sess)
              \<and> ObjectId (session_retailer_id (snd sess)) = Inr i
              \<and> (\<forall>r\<in>set (retailer s). fst r \<noteq> i) \<longrightarrow>
            get_current_retailer (Some s) a t = Inl (HTTPException 401 ''Retailer not found''))"
proof (intro conjI impI)
  show "(get_current_retailer (Some s) a t = Inr r) =
           (\<exists>k c. bearer_token a = Some k \<and> c \<in> set (session s)
              \<and> token (snd c) = k \<and> t \<le> expires_at (snd c) \<and> r \<in> set (retailer s)
              \<and> ObjectId (session_retailer_id (snd c)) = Inr (fst r))"
    by (rule validate_success_iff [OF assms])
qed (auto intro: validate_missing validate_unknown validate_expired [OF assms(1)]
      validate_no_retailer [OF assms(1)])

text \<open>
  On the example store: the second retailer's token is accepted; a header of another
  scheme, an unknown token, the same token after its expiry, and the same token once the
  second retailer is gone are refused, each at its stage.
\<close>

theorem validate_contract_witness:
  "get_current_retailer (Some ex_db) (Some ''Bearer tokB'') (Double 100 0) = Inr (oidB, retB)
   \<and> get_current_retailer (Some ex_db) (Some ''Basic tokB'') (Double 100 0)
       = Inl (HTTPException 401 ''Missing token'')
   \<and> get_current_retailer (Some ex_db) (Some ''Bearer nope'') (Double 100 0)
       = Inl (HTTPException 401 ''Invalid or expired token'')
   \<and> get_current_retailer (Some ex_db) (Some ''Bearer tokB'') (Double 2001 0)
       = Inl (HTTPException 401 ''Invalid or expired token'')
   \<and> get_current_retailer (Some (ex_db\<lparr>retailer := [(oidA, retA)]\<rparr>)) (Some ''Bearer tokB'') (Double 100 0)
       = Inl (HTTPException 401 ''Retailer not found'')"
proof -
  have ut: "distinct (map (\<lambda>d. token (snd d)) (session ex_db))"
    and ui: "distinct (map fst (retailer ex_db))"
    by (simp_all add: ex_defs)
  let ?db' = "ex_db\<lparr>retailer := [(oidA, retA)]\<rparr>"
  have ut': "distinct (map (\<lambda>d. token (snd d)) (session ?db'))"
    and ui': "distinct (map fst (retailer ?db'))"
    by (simp_all add: ex_defs)
  have m: "(oidT, sessB) \<in> set (session ex_db)" "token (snd (oidT, sessB)) = ''tokB''"
    "(oidB, retB) \<in> set (retailer ex_db)"
    "ObjectId (session_retailer_id (snd (oidT, sessB))) = Inr (fst (oidB, retB))"
    "expires_at (snd (oidT, sessB)) = Double 2000 0"
    "\<forall>d\<in>set (session ex_db). token (snd d) \<noteq> ''nope''"
    "(oidT, sessB) \<in> set (session ?db')" "\<forall>r\<in>set (retailer ?db'). fst r \<noteq> oidB"
    by (simp_all add: ex_defs)
  have 1: "get_current_retailer (Some ex_db) (Some ''Bearer tokB'') (Double 100 0) = Inr (oidB, retB)"
  proof (rule validate_contract [OF ut ui, THEN conjunct1, THEN iffD2])
    show "\<exists>k c. bearer_token (Some ''Bearer tokB'') = Some k \<and> c \<in> set (session ex_db)
            \<and> token (snd c) = k \<and> Double 100 0 \<le> expires_at (snd c) \<and> (oidB, retB) \<in> set (retailer ex_db)
            \<and> ObjectId (session_retailer_id (snd c)) = Inr (fst (oidB, retB))"
      using m bearer_ex by (intro exI [of _ "''tokB''"] exI [of _ "(oidT, sessB)"]) simp
  qed
  have 2: "get_current_retailer (Some ex_db) (Some ''Basic tokB'') (Double 100 0)
       = Inl (HTTPException 401 ''Missing token'')"
    using validate_contract [OF ut ui, where a = "Some ''Basic tokB''" and t = "Double 100 0"] bearer_ex
    by simp
  have 3: "get_current_retailer (Some ex_db) (Some ''Bearer nope'') (Double 100 0)
       = Inl (HTTPException 401 ''Invalid or expired token'')"
    using validate_contract [OF ut ui, where a = "Some ''Bearer nope''" and t = "Double 100 0"
        and tok = "''nope''"] m(6) bearer_ex
    by simp
  have 4: "get_current_retailer (Some ex_db) (Some ''Bearer tokB'') (Double 2001 0)
       = Inl (HTTPException 401 ''Invalid or expired token'')"
    using validate_contract [OF ut ui, where a = "Some ''Bearer tokB''" and t = "Double 2001 0"
        and tok = "''tokB''" and sess = "(oidT, sessB)"] m(1,2,5) bearer_ex
    by simp
  have 5: "get_current_retailer (Some ?db') (Some ''Bearer tokB'') (Double 100 0)
       = Inl (HTTPException 401 ''Retailer not found'')"
    using validate_contract [OF ut' ui', where a = "Some ''Bearer tokB''" and t = "Double 100 0"
        and tok = "''tokB''" and sess = "(oidT, sessB)" and i = oidB] m(2,4,5,7,8) bearer_ex
    by simp
  from 1 2 3 4 5 show ?thesis by simp
qed


text \<open>
  Claim C3 (auth-failure indistinguishability), as stated, at two requests that fail at
  different stages: without a header the caller sees 401 ``Missing token'', with an unknown
  token 401 ``Invalid or expired token''. The status is the same, the message is not.
\<close>

theorem auth_failure_distinguishable:
  "get_current_retailer (Some ex_db) None (Double 100 0) = Inl (HTTPException 401 ''Missing token'')
   \<and> get_current_retailer (Some ex_db) (Some ''Bearer nope'') (Double 100 0)
       = Inl (HTTPException 401 ''Invalid or expired token'')
   \<and> get_current_retailer (Some ex_db) None (Double 100 0)
       \<noteq> get_current_retailer (Some ex_db) (Some ''Bearer nope'') (Double 100 0)"
  by (simp add: get_current_retailer_def startswith_def lower_def lower_char_def split1_def
      char_of_eq_iff ex_defs)

text \<open>
  Claim C3, amended. Any two requests that fail session validation, at whatever stages
  (missing token, unknown token, expired token, missing retailer), get the same 401
  status, with the message of their stage. The messages of the unknown-token and the
  expired-token stage are the same, ``Invalid or expired token'', so the caller cannot tell
  these two stages apart; the missing-token and the missing-retailer stage have messages of
  their own. Two failures get the identical response exactly when their stages have the
  same message. (The database is available and every session names its retailer by a
  well-formed object id.)
\<close>

theorem auth_failure_response:
  assumes "wf_sessions s" and "wf_sessions s'"
    and "auth_stage s a t = Some st" and "auth_stage s' a' t' = Some st'"
  shows "get_current_retailer (Some s) a t = Inl (HTTPException 401 (detail st))
       \<and> get_current_retailer (Some s') a' t' = Inl (HTTPException 401 (detail st'))
       \<and> (get_current_retailer (Some s) a t = get_current_retailer (Some s') a' t')
           = (detail st = detail st')
       \<and> detail InvalidToken = detail ExpiredToken
       \<and> detail MissingToken \<noteq> detail InvalidToken
       \<and> detail RetailerNotFound \<noteq> detail InvalidToken
       \<and> detail MissingToken \<noteq> detail RetailerNotFound"
  using auth_stage_response [OF assms(1,3)] auth_stage_response [OF assms(2,4)] by simp

text \<open>
  On the example store: an unknown token and the first retailer's expired token get the
  identical response; a request without a header gets ``Missing token''.
\<close>

theorem auth_failure_response_witness:
  "auth_stage ex_db (Some ''Bearer nope'') (Double 100 0) = Some InvalidToken
   \<and> auth_stage ex_db (Some ''Bearer tokA'') (Double 1001 0) = Some ExpiredToken
   \<and> auth_stage ex_db None (Double 100 0) = Some MissingToken
   \<and> get_current_retailer (Some ex_db) (Some ''Bearer nope'') (Double 100 0)
       = Inl (HTTPException 401 ''Invalid or expired token'')
   \<and> get_current_retailer (Some ex_db) (Some ''Bearer tokA'') (Double 1001 0)
       = get_current_retailer (Some ex_db) (Some ''Bearer nope'') (Double 100 0)
   \<and> get_current_retailer (Some ex_db) None (Double 100 0) = Inl (HTTPException 401 ''Missing token'')"
proof -
  have i: "auth_stage ex_db (Some ''Bearer nope'') (Double 100 0) = Some InvalidToken"
    by (simp add: auth_stage_def bearer_ex) (simp add: ex_defs)
  have x: "auth_stage ex_db (Some ''Bearer tokA'') (Double 1001 0) = Some ExpiredToken"
    by (simp add: auth_stage_def bearer_ex) (simp add: ex_defs)
  have m: "auth_stage ex_db None (Double 100 0) = Some MissingToken"
    by (simp add: auth_stage_def bearer_ex)
  from auth_failure_response [OF wf_sessions_ex wf_sessions_ex i x]
       auth_failure_response [OF wf_sessions_ex wf_sessions_ex m m]
  show ?thesis using i x m by simp
qed

section \<open>Registration and credentials\<close>

subsection \<open>Encoding\<close>

lemma encodable_ascii: "encodable (ascii s)"
proof -
  have "\<not> is_surrogate (of_char c)" for c :: char
  proof -
    have "(of_char c :: nat) < 256" by simp
    then show ?thesis unfolding is_surrogate_def by linarith
  qed
  then show ?thesis by (simp add: encodable_def ascii_def list_ex_iff)
qed

lemma utf8_ascii:
  "list_all (\<lambda>c. (of_char c :: nat) < 128) s \<Longrightarrow> concat (map utf8_char (ascii s)) = s"
  by (induction s) (simp_all add: ascii_def utf8_char_def)

lemma encode_ascii_SALT: "concat (map utf8_char (ascii SALT)) = SALT"
  by (rule utf8_ascii) (simp add: SALT_def)

lemma hash_password_eq:
  "hash_password sha p =
     (if encodable p then Inr (SALT @ ''$'' @ sha (SALT @ concat (map utf8_char p)))
      else Inl UnicodeEncodeError)"
  using encodable_ascii [of SALT]
  by (auto simp: hash_password_def encode_def encodable_def encode_ascii_SALT list_ex_iff)



subsection \<open>Registration\<close>

lemma handle_unique_emails:
  "unique_emails db \<Longrightarrow> unique_emails (snd (handle sha db e r))"
  by (cases r)
    (auto simp: unique_emails_def register_def truth_def create_lead_def login_def
      create_order_def update_order_def delete_order_def create_document_def Let_def
      split: option.splits sum.splits if_splits)

lemma run_unique_emails:
  "unique_emails db \<Longrightarrow> unique_emails (run sha db rs)"
  by (induction rs arbitrary: db) (auto simp: handle_unique_emails)


text \<open>
  Claim C9 (email uniqueness at registration): what \<^verbatim>\<open>register\<close> does where the claim has
  it fail with the 400 of a duplicate account. With a database at hand, whatever it holds,
  \<^verbatim>\<open>register\<close> stops at its truth test of \<^verbatim>\<open>db\<close> with \<^verbatim>\<open>NotImplementedError\<close> and leaves the
  store as it was; so it does on the example store, which holds \<^verbatim>\<open>a@x.com\<close>, for that email:
  the existence check and its 400 ``Account already exists'' are not reached.
\<close>

theorem register_truth_test:
  "register sha (Some s) em pw co cn e = (Inl NotImplementedError, Some s)
   \<and> (oidA, retA) \<in> set (retailer ex_db) \<and> email retA = ''a@x.com''
   \<and> register ex_sha (Some ex_db) ''a@x.com'' (ascii ''pw2'') None None ex_env
       = (Inl NotImplementedError, Some ex_db)"
  by (simp add: register_def truth_def ex_db_def retA_def)

subsection \<open>Hashing\<close>

text \<open>
  Claim C8 (credential hashing), as stated, at the plaintext \<^verbatim>\<open>"\ud800"\<close>: \<^verbatim>\<open>hash_password\<close>
  does not return, \<^verbatim>\<open>.encode()\<close> raises \<^verbatim>\<open>UnicodeEncodeError\<close>.
\<close>

theorem hash_password_surrogate:
  "hash_password ex_sha bad_pw = Inl UnicodeEncodeError"
  by (simp add: hash_password_eq encodable_def is_surrogate_def bad_pw_def)

text \<open>
  Claim C8, amended. For every plaintext \<open>p\<close> without a surrogate code point,
  \<^verbatim>\<open>hash_password\<close> returns, and returns the salt, a dollar sign and the digest of the UTF-8
  bytes of the salt followed by \<open>p\<close> (a function of \<open>p\<close> alone). \<^verbatim>\<open>login\<close> verifies such a
  candidate by comparing \<^verbatim>\<open>hash_password\<close> of it with the stored hash of the record found
  for the email.
\<close>

theorem hash_password_form:
  assumes "encodable p"
  shows "hash_password sha p = Inr (SALT @ ''$'' @ sha (SALT @ concat (map utf8_char p)))
       \<and> (\<exists>h. hash_password sha p = Inr h \<and> take (length SALT) h = SALT
              \<and> h ! length SALT = CHR ''$''
              \<and> drop (Suc (length SALT)) h = sha (SALT @ concat (map utf8_char p)))
       \<and> fst (login sha (Some s) em p e) =
           (case find_one (\<lambda>d. email (snd d) = em) (retailer s) of
              None \<Rightarrow> Inl (HTTPException 401 ''Invalid credentials'')
            | Some rec \<Rightarrow>
                if hash_password sha p = Inr (password_hash (snd rec))
                then Inr (TokenOut (new_token e))
                else Inl (HTTPException 401 ''Invalid credentials''))"
  using assms
  by (auto simp: hash_password_eq nth_append login_def create_document_def Let_def
      split: option.splits)

text \<open>
  With the stand-in digest: the hash of \<^verbatim>\<open>pw1\<close>, which the first retailer's record
  stores, and the two outcomes of the comparison in \<^verbatim>\<open>login\<close>.
\<close>

theorem hash_password_form_witness:
  "encodable (ascii ''pw1'')
   \<and> hash_password ex_sha (ascii ''pw1'') = Inr (''ld_static_salt_v1$1wp1v_tlas_citats_dl'')
   \<and> fst (login ex_sha (Some ex_db) ''a@x.com'' (ascii ''pw1'') ex_env) = Inr (TokenOut ''tokN'')
   \<and> fst (login ex_sha (Some ex_db) ''a@x.com'' (ascii ''wrong'') ex_env)
       = Inl (HTTPException 401 ''Invalid credentials'')"
proof -
  have e: "encodable (ascii ''pw1'')" "encodable (ascii ''wrong'')"
    by (rule encodable_ascii)+
  have f: "find_one (\<lambda>d. email (snd d) = ''a@x.com'') (retailer ex_db) = Some (oidA, retA)"
    by (simp add: ex_db_def retA_def)
  have u: "concat (map utf8_char (ascii ''pw1'')) = ''pw1''"
    "concat (map utf8_char (ascii ''wrong'')) = ''wrong''"
    by (simp_all add: utf8_ascii)
  from hash_password_form [OF e(1), of ex_sha ex_db "''a@x.com''" ex_env]
       hash_password_form [OF e(2), of ex_sha ex_db "''a@x.com''" ex_env] e(1) f u
  show ?thesis
    by (simp add: SALT_def ex_sha_def retA_def ex_hash_def ex_env_def)
qed


section \<open>Login and session expiry\<close>

















end
